theory Spec2Isabelle
  imports Main
begin

section \<open>The class Compression\<close>

text \<open>
  \<^verbatim>\<open>lib/common.ts\<close> of \<^verbatim>\<open>@aws-cdk/aws-kinesisfirehose-destinations\<close> declares a class
  \<^verbatim>\<open>Compression\<close>, an enum \<^verbatim>\<open>BackupMode\<close> and four interfaces.

  An instance of the class has one field, declared by the constructor's parameter
  property \<^verbatim>\<open>public readonly value: string\<close>. The command \<^verbatim>\<open>value\<close> is reserved
  here, so the field is written \<open>value'\<close>.
\<close>

record Compression =
  value' :: string

text \<open>
  Instances are objects: two \<^verbatim>\<open>new\<close> expressions give two objects, also for the same
  tag. The store holds the \<^verbatim>\<open>Compression\<close> objects in allocation order and a reference
  is an index into it; reading a reference nothing was allocated at gives \<open>None\<close>.
\<close>

type_synonym ref = nat

type_synonym heap = "Compression list"

definition deref :: "heap \<Rightarrow> ref \<Rightarrow> Compression option" where
  "deref h r = (if r < length h then Some (h ! r) else None)"

text \<open>
  \<^verbatim>\<open>constructor(public readonly value: string) { }\<close>: the constructor is public, takes any
  string, has an empty body and no \<^verbatim>\<open>throw\<close>. \<^verbatim>\<open>new Compression(v)\<close> allocates one
  object whose field is the argument and returns the reference to it.
\<close>

definition new_Compression :: "string \<Rightarrow> heap \<Rightarrow> ref \<times> heap" where
  "new_Compression v h = (length h, h @ [\<lparr>value' = v\<rparr>])"

text \<open>
  The static side of the class: five \<^verbatim>\<open>public static readonly\<close> fields, each holding
  the reference its initialiser returned.
\<close>

record Compression_class =
  GZIP :: ref
  HADOOP_SNAPPY :: ref
  SNAPPY :: ref
  UNCOMPRESSED :: ref
  ZIP :: ref

text \<open>
  The static initialisers run once, in the order of the text, when the class
  declaration is evaluated.
\<close>

definition Compression_static_init :: "heap \<Rightarrow> Compression_class \<times> heap" where
  "Compression_static_init h0 =
     (let (gzip, h1) = new_Compression ''GZIP'' h0;
          (hadoop_snappy, h2) = new_Compression ''HADOOP_SNAPPY'' h1;
          (snappy, h3) = new_Compression ''Snappy'' h2;
          (uncompressed, h4) = new_Compression ''UNCOMPRESSED'' h3;
          (zip, h5) = new_Compression ''ZIP'' h4
      in (\<lparr>GZIP = gzip, HADOOP_SNAPPY = hadoop_snappy, SNAPPY = snappy,
            UNCOMPRESSED = uncompressed, ZIP = zip\<rparr>, h5))"

text \<open>
  No \<^verbatim>\<open>Compression\<close> object can exist before the class does, so the module is loaded
  on the empty store. \<open>Compression_statics\<close> is the class as other modules import it,
  \<open>module_heap\<close> the store they find.
\<close>

definition Compression_statics :: Compression_class where
  "Compression_statics = fst (Compression_static_init [])"

definition module_heap :: heap where
  "module_heap = snd (Compression_static_init [])"

text \<open>
  \<^verbatim>\<open>Compression.M.value\<close> for a static member \<open>M\<close>, read in the store \<open>h\<close>.
\<close>

definition static_value :: "heap \<Rightarrow> (Compression_class \<Rightarrow> ref) \<Rightarrow> string option" where
  "static_value h M = map_option value' (deref h (M Compression_statics))"

text \<open>
  Code that imports the module can call the constructor as often as it likes, with any
  tags: \<open>construct_all vs\<close> is the store after the calls \<^verbatim>\<open>new Compression(v)\<close> for
  the tags \<open>vs\<close>, in order. The constructor is the only operation the module has.
\<close>

fun construct_all :: "string list \<Rightarrow> heap \<Rightarrow> heap" where
  "construct_all [] h = h"
| "construct_all (v # vs) h = construct_all vs (snd (new_Compression v h))"

text \<open>
  The references the five static fields hold, in the order of the declarations, and the
  references allocated in a store.
\<close>

definition static_refs :: "ref list" where
  "static_refs =
     map (\<lambda>M. M Compression_statics) [GZIP, HADOOP_SNAPPY, SNAPPY, UNCOMPRESSED, ZIP]"

definition allocated :: "heap \<Rightarrow> ref list" where
  "allocated h = [0..<length h]"

text \<open>
  A store in which every \<^verbatim>\<open>Compression\<close> object is one of the five the static fields
  hold.
\<close>

definition only_predefined :: "heap \<Rightarrow> bool" where
  "only_predefined h = list_all (\<lambda>r. r \<in> set static_refs) (allocated h)"

text \<open>
  Letter case of a tag (ASCII, which all tags of the source are): a tag is mixed-case
  when it has letters of both cases, all-uppercase when it has capitals and no small
  letter.
\<close>

definition has_lowercase :: "string \<Rightarrow> bool" where
  "has_lowercase s = list_ex (\<lambda>c. c \<in> set ''abcdefghijklmnopqrstuvwxyz'') s"

definition has_uppercase :: "string \<Rightarrow> bool" where
  "has_uppercase s = list_ex (\<lambda>c. c \<in> set ''ABCDEFGHIJKLMNOPQRSTUVWXYZ'') s"

definition mixed_case :: "string \<Rightarrow> bool" where
  "mixed_case s = (has_uppercase s \<and> has_lowercase s)"

definition all_uppercase :: "string \<Rightarrow> bool" where
  "all_uppercase s = (has_uppercase s \<and> \<not> has_lowercase s)"

section \<open>The enum BackupMode\<close>

text \<open>
  \<^verbatim>\<open>export enum BackupMode { ALL, FAILED, DISABLED, }\<close>: three members, none with an
  initialiser. \<open>ALL\<close> is a quantifier of the logic's input syntax, so the members are
  written as the source refers to them: \<^verbatim>\<open>BackupMode.ALL\<close> is \<open>BackupMode_ALL\<close>.
\<close>

datatype BackupMode = BackupMode_ALL | BackupMode_FAILED | BackupMode_DISABLED

text \<open>
  TypeScript numbers the members of an enum that have no initialiser: the first is
  \<open>0\<close>, every later one is one more than the member before it. \<open>auto_number n ms\<close>
  numbers the members \<open>ms\<close> from \<open>n\<close> on.
\<close>

fun auto_number :: "nat \<Rightarrow> 'a list \<Rightarrow> ('a \<times> nat) list" where
  "auto_number n [] = []"
| "auto_number n (m # ms) = (m, n) # auto_number (Suc n) ms"

definition BackupMode_enum :: "(BackupMode \<times> nat) list" where
  "BackupMode_enum = auto_number 0 [BackupMode_ALL, BackupMode_FAILED, BackupMode_DISABLED]"

definition BackupMode_number :: "BackupMode \<Rightarrow> nat option" where
  "BackupMode_number m = map_of BackupMode_enum m"

section \<open>The interfaces\<close>

text \<open>
  The interfaces are declarations without code. Each is kept as the source declares it:
  its name, its \<^verbatim>\<open>extends\<close> clause and its own properties, a property with its name,
  whether it is \<^verbatim>\<open>readonly\<close>, whether it is optional (\<^verbatim>\<open>?\<close>) and its type as written.
\<close>

datatype ts_type = TBoolean | TString | TRef string | TArray ts_type

record property =
  pname :: string
  readonly :: bool
  optional :: bool
  ptype :: ts_type

datatype interface =
  Interface (iname: string) (extends: "interface list") (members: "property list")

text \<open>
  The properties of an interface: those of the interfaces it extends, in the order of
  the \<^verbatim>\<open>extends\<close> clause, then its own.
\<close>

fun all_members :: "interface \<Rightarrow> property list" where
  "all_members (Interface n ps ms) = concat (map all_members ps) @ ms"

definition DestinationLoggingProps :: interface where
  "DestinationLoggingProps = Interface ''DestinationLoggingProps'' []
     [\<lparr>pname = ''logging'', readonly = True, optional = True, ptype = TBoolean\<rparr>,
      \<lparr>pname = ''logGroup'', readonly = True, optional = True, ptype = TRef ''logs.ILogGroup''\<rparr>]"

definition CommonS3Props :: interface where
  "CommonS3Props = Interface ''CommonS3Props'' []
     [\<lparr>pname = ''bufferingInterval'', readonly = True, optional = True,
        ptype = TRef ''cdk.Duration''\<rparr>,
      \<lparr>pname = ''bufferingSize'', readonly = True, optional = True,
        ptype = TRef ''cdk.Size''\<rparr>,
      \<lparr>pname = ''compression'', readonly = True, optional = True,
        ptype = TRef ''Compression''\<rparr>,
      \<lparr>pname = ''encryptionKey'', readonly = True, optional = True,
        ptype = TRef ''kms.IKey''\<rparr>,
      \<lparr>pname = ''errorOutputPrefix'', readonly = True, optional = True, ptype = TString\<rparr>,
      \<lparr>pname = ''prefix'', readonly = True, optional = True, ptype = TString\<rparr>]"

definition S3BackupDestinationProps :: interface where
  "S3BackupDestinationProps = Interface ''S3BackupDestinationProps''
     [DestinationLoggingProps, CommonS3Props]
     [\<lparr>pname = ''backupBucket'', readonly = True, optional = True,
        ptype = TRef ''s3.IBucket''\<rparr>,
      \<lparr>pname = ''backupMode'', readonly = True, optional = True,
        ptype = TRef ''BackupMode''\<rparr>]"

definition CommonDestinationProps :: interface where
  "CommonDestinationProps = Interface ''CommonDestinationProps''
     [DestinationLoggingProps]
     [\<lparr>pname = ''role'', readonly = True, optional = True, ptype = TRef ''iam.IRole''\<rparr>,
      \<lparr>pname = ''processors'', readonly = True, optional = True,
        ptype = TArray (TRef ''IDataProcessor'')\<rparr>,
      \<lparr>pname = ''backupConfiguration'', readonly = True, optional = True,
        ptype = TRef ''S3BackupDestinationProps''\<rparr>]"

text \<open>
  The class declares its members the same way: the instance field of the constructor's
  parameter property, and the five static fields, whose type is that of their
  initialiser.
\<close>

definition Compression_instance_members :: "property list" where
  "Compression_instance_members =
     [\<lparr>pname = ''value'', readonly = True, optional = False, ptype = TString\<rparr>]"

definition Compression_static_members :: "property list" where
  "Compression_static_members =
     map (\<lambda>n. \<lparr>pname = n, readonly = True, optional = False, ptype = TRef ''Compression''\<rparr>)
       [''GZIP'', ''HADOOP_SNAPPY'', ''SNAPPY'', ''UNCOMPRESSED'', ''ZIP'']"

section \<open>Evaluating the module\<close>

lemma Compression_static_init_empty:
  "Compression_static_init [] =
     (\<lparr>GZIP = 0, HADOOP_SNAPPY = 1, SNAPPY = 2, UNCOMPRESSED = 3, ZIP = 4\<rparr>,
      [\<lparr>value' = ''GZIP''\<rparr>, \<lparr>value' = ''HADOOP_SNAPPY''\<rparr>, \<lparr>value' = ''Snappy''\<rparr>,
       \<lparr>value' = ''UNCOMPRESSED''\<rparr>, \<lparr>value' = ''ZIP''\<rparr>])"
  by (simp add: Compression_static_init_def new_Compression_def)

lemma Compression_statics_refs:
  "Compression_statics =
     \<lparr>GZIP = 0, HADOOP_SNAPPY = 1, SNAPPY = 2, UNCOMPRESSED = 3, ZIP = 4\<rparr>"
  by (simp add: Compression_statics_def Compression_static_init_empty)

lemma module_heap_objects:
  "module_heap =
     [\<lparr>value' = ''GZIP''\<rparr>, \<lparr>value' = ''HADOOP_SNAPPY''\<rparr>, \<lparr>value' = ''Snappy''\<rparr>,
      \<lparr>value' = ''UNCOMPRESSED''\<rparr>, \<lparr>value' = ''ZIP''\<rparr>]"
  by (simp add: module_heap_def Compression_static_init_empty)

lemma length_module_heap: "length module_heap = 5"
  by (simp add: module_heap_objects)

lemma static_refs_eq: "static_refs = [0, 1, 2, 3, 4]"
  by (simp add: static_refs_def Compression_statics_refs)

lemma static_values_eq:
  "map (static_value module_heap) [GZIP, HADOOP_SNAPPY, SNAPPY, UNCOMPRESSED, ZIP] =
     [Some ''GZIP'', Some ''HADOOP_SNAPPY'', Some ''Snappy'', Some ''UNCOMPRESSED'', Some ''ZIP'']"
  by (simp add: static_value_def deref_def Compression_statics_refs module_heap_objects)

subsection \<open>The store under the constructor\<close>

lemma deref_fresh: "deref h (length h) = None"
  by (simp add: deref_def)

lemma deref_new: "deref (h @ x # xs) (length h) = Some x"
  by (simp add: deref_def)

lemma deref_old: "r < length h \<Longrightarrow> deref (h @ xs) r = deref h r"
  by (simp add: deref_def nth_append)

lemma fst_new_Compression: "fst (new_Compression v h) = length h"
  by (simp add: new_Compression_def)

lemma snd_new_Compression: "snd (new_Compression v h) = h @ [\<lparr>value' = v\<rparr>]"
  by (simp add: new_Compression_def)

lemma deref_new_Compression:
  "deref (snd (new_Compression v h)) (fst (new_Compression v h)) = Some \<lparr>value' = v\<rparr>"
  by (simp add: fst_new_Compression snd_new_Compression deref_new)

text \<open>
  Constructor calls only append: the store after them is the store before them,
  followed by one object per call.
\<close>

lemma construct_all_append:
  "construct_all vs h = h @ map (\<lambda>v. \<lparr>value' = v\<rparr>) vs"
proof (induction vs arbitrary: h)
  case Nil
  show ?case by simp
next
  case (Cons v vs)
  show ?case by (simp add: Cons.IH snd_new_Compression)
qed

lemma length_construct_all: "length (construct_all vs h) = length h + length vs"
  by (simp add: construct_all_append)

lemma take_construct_all: "take (length h) (construct_all vs h) = h"
  by (simp add: construct_all_append)

lemma deref_construct_all: "r < length h \<Longrightarrow> deref (construct_all vs h) r = deref h r"
  by (simp add: construct_all_append deref_old)

section \<open>The claims\<close>

text \<open>
  C1. Each of the five predefined instances exposes exactly its tag:
  \<^verbatim>\<open>Compression.GZIP.value\<close> is \<^verbatim>\<open>"GZIP"\<close>, \<^verbatim>\<open>Compression.HADOOP_SNAPPY.value\<close> is
  \<^verbatim>\<open>"HADOOP_SNAPPY"\<close>, \<^verbatim>\<open>Compression.SNAPPY.value\<close> is \<^verbatim>\<open>"Snappy"\<close>,
  \<^verbatim>\<open>Compression.UNCOMPRESSED.value\<close> is \<^verbatim>\<open>"UNCOMPRESSED"\<close> and
  \<^verbatim>\<open>Compression.ZIP.value\<close> is \<^verbatim>\<open>"ZIP"\<close>.
\<close>

theorem Compression_static_values:
  "static_value module_heap GZIP = Some ''GZIP'' \<and>
   static_value module_heap HADOOP_SNAPPY = Some ''HADOOP_SNAPPY'' \<and>
   static_value module_heap SNAPPY = Some ''Snappy'' \<and>
   static_value module_heap UNCOMPRESSED = Some ''UNCOMPRESSED'' \<and>
   static_value module_heap ZIP = Some ''ZIP''"
  by (simp add: static_value_def deref_def Compression_statics_refs module_heap_objects)

text \<open>
  C2. \<^verbatim>\<open>BackupMode\<close> has exactly the three members \<^verbatim>\<open>ALL\<close>, \<^verbatim>\<open>FAILED\<close> and
  \<^verbatim>\<open>DISABLED\<close>: they are pairwise distinct, every \<^verbatim>\<open>BackupMode\<close> is one of them, the
  enum declares them and nothing else, and their numbers are pairwise distinct, so
  that they can be told apart at run time.
\<close>

theorem BackupMode_exactly_three:
  "distinct [BackupMode_ALL, BackupMode_FAILED, BackupMode_DISABLED] \<and>
   (UNIV :: BackupMode set) = {BackupMode_ALL, BackupMode_FAILED, BackupMode_DISABLED} \<and>
   map fst BackupMode_enum = [BackupMode_ALL, BackupMode_FAILED, BackupMode_DISABLED] \<and>
   distinct (map snd BackupMode_enum)"
proof -
  have "m \<in> {BackupMode_ALL, BackupMode_FAILED, BackupMode_DISABLED}" for m
    by (cases m) simp_all
  then have "(UNIV :: BackupMode set) = {BackupMode_ALL, BackupMode_FAILED, BackupMode_DISABLED}"
    by blast
  then show ?thesis
    by (simp add: BackupMode_enum_def)
qed

text \<open>
  C3, as claimed, fails: the set of \<^verbatim>\<open>Compression\<close> values is not closed. After
  \<^verbatim>\<open>new Compression('LZ4')\<close> on the loaded module the store holds an object that is
  none of the five predefined ones, and it exposes \<^verbatim>\<open>"LZ4"\<close>.
\<close>

theorem Compression_not_closed:
  "\<not> only_predefined (snd (new_Compression ''LZ4'' module_heap)) \<and>
   deref (snd (new_Compression ''LZ4'' module_heap)) (fst (new_Compression ''LZ4'' module_heap))
     = Some \<lparr>value' = ''LZ4''\<rparr> \<and>
   fst (new_Compression ''LZ4'' module_heap) \<notin> set static_refs"
proof -
  have "fst (new_Compression ''LZ4'' module_heap) = 5"
    by (simp add: fst_new_Compression length_module_heap)
  moreover have "\<not> only_predefined (snd (new_Compression ''LZ4'' module_heap))"
    by (simp add: only_predefined_def allocated_def snd_new_Compression length_module_heap
        static_refs_eq upt_rec)
  ultimately show ?thesis
    using deref_new_Compression [of "''LZ4''" module_heap] by (simp add: static_refs_eq)
qed

text \<open>
  C3, amended. When the module has been loaded, exactly five \<^verbatim>\<open>Compression\<close>
  instances exist: the objects the static fields \<^verbatim>\<open>GZIP\<close>, \<^verbatim>\<open>HADOOP_SNAPPY\<close>,
  \<^verbatim>\<open>SNAPPY\<close>, \<^verbatim>\<open>UNCOMPRESSED\<close> and \<^verbatim>\<open>ZIP\<close> hold, which are pairwise distinct. The set
  is not closed: the constructor is public and takes every string, so after any
  constructor calls \<open>vs\<close> a further \<^verbatim>\<open>new Compression(v)\<close> gives one more instance,
  which exposes \<open>v\<close> and is none of the five.
\<close>

theorem Compression_instances:
  "only_predefined module_heap \<and>
   allocated module_heap = static_refs \<and> length static_refs = 5 \<and> distinct static_refs \<and>
   deref (snd (new_Compression v (construct_all vs module_heap)))
     (fst (new_Compression v (construct_all vs module_heap))) = Some \<lparr>value' = v\<rparr> \<and>
   fst (new_Compression v (construct_all vs module_heap)) \<notin> set static_refs \<and>
   \<not> only_predefined (snd (new_Compression v (construct_all vs module_heap)))"
proof -
  let ?h = "construct_all vs module_heap"
  have alloc: "allocated module_heap = static_refs"
    by (simp add: allocated_def length_module_heap static_refs_eq upt_rec)
  have five: "length static_refs = 5 \<and> distinct static_refs"
    by (simp add: static_refs_eq)
  have closed: "only_predefined module_heap"
    by (simp add: only_predefined_def alloc list_all_iff)
  have new: "fst (new_Compression v ?h) = 5 + length vs"
    by (simp add: fst_new_Compression length_construct_all length_module_heap)
  then have fresh: "fst (new_Compression v ?h) \<notin> set static_refs"
    by (simp add: static_refs_eq)
  have "5 + length vs \<in> set (allocated (snd (new_Compression v ?h)))"
    by (simp add: allocated_def snd_new_Compression length_construct_all length_module_heap)
  moreover have "5 + length vs \<notin> set static_refs"
    by (simp add: static_refs_eq)
  ultimately have "\<not> only_predefined (snd (new_Compression v ?h))"
    unfolding only_predefined_def list_all_iff by blast
  with alloc five closed fresh show ?thesis
    by (simp add: deref_new_Compression)
qed

text \<open>
  C4. For every string \<open>v\<close> and in every store \<open>h\<close>, \<^verbatim>\<open>new Compression(v)\<close> returns a
  reference to an object whose \<^verbatim>\<open>value\<close> is exactly \<open>v\<close> (there is no failing
  branch); the reference is fresh and the objects that existed before are as they
  were (no side effect); and whatever constructor calls \<open>vs\<close> follow, the object
  still exposes \<open>v\<close> (it is never changed).
\<close>

theorem new_Compression_contract:
  "deref (snd (new_Compression v h)) (fst (new_Compression v h)) = Some \<lparr>value' = v\<rparr> \<and>
   map_option value' (deref (snd (new_Compression v h)) (fst (new_Compression v h))) = Some v \<and>
   deref h (fst (new_Compression v h)) = None \<and>
   take (length h) (snd (new_Compression v h)) = h \<and>
   deref (construct_all vs (snd (new_Compression v h))) (fst (new_Compression v h))
     = Some \<lparr>value' = v\<rparr>"
proof -
  have "fst (new_Compression v h) < length (snd (new_Compression v h))"
    by (simp add: fst_new_Compression snd_new_Compression)
  then have "deref (construct_all vs (snd (new_Compression v h))) (fst (new_Compression v h))
      = Some \<lparr>value' = v\<rparr>"
    by (simp add: deref_construct_all deref_new_Compression)
  moreover have "deref h (fst (new_Compression v h)) = None"
    by (simp add: fst_new_Compression deref_fresh)
  moreover have "take (length h) (snd (new_Compression v h)) = h"
    by (simp add: snd_new_Compression)
  ultimately show ?thesis
    by (simp add: deref_new_Compression)
qed

text \<open>
  C5. Every field the module declares is \<^verbatim>\<open>readonly\<close>: the instance field and the
  static fields of \<^verbatim>\<open>Compression\<close>, and every property of \<^verbatim>\<open>DestinationLoggingProps\<close>,
  \<^verbatim>\<open>CommonS3Props\<close>, \<^verbatim>\<open>S3BackupDestinationProps\<close> and \<^verbatim>\<open>CommonDestinationProps\<close>,
  inherited ones included. The module's one operation, the constructor, neither
  changes nor removes an object: after any constructor calls \<open>vs\<close> the objects of the
  store \<open>h\<close> they started from are as they were, and the five static fields still
  refer to the objects they referred to at load time.
\<close>

theorem module_entities_immutable:
  "list_all readonly Compression_instance_members \<and>
   list_all readonly Compression_static_members \<and>
   list_all readonly (all_members DestinationLoggingProps) \<and>
   list_all readonly (all_members CommonS3Props) \<and>
   list_all readonly (all_members S3BackupDestinationProps) \<and>
   list_all readonly (all_members CommonDestinationProps) \<and>
   take (length h) (construct_all vs h) = h \<and>
   map (deref (construct_all vs module_heap)) static_refs = map (deref module_heap) static_refs"
proof -
  have "list_all readonly Compression_instance_members"
    by (simp add: Compression_instance_members_def)
  moreover have "list_all readonly Compression_static_members"
    by (simp add: Compression_static_members_def)
  moreover have "list_all readonly (all_members DestinationLoggingProps)"
    by (simp add: DestinationLoggingProps_def)
  moreover have "list_all readonly (all_members CommonS3Props)"
    by (simp add: CommonS3Props_def)
  moreover have "list_all readonly (all_members S3BackupDestinationProps)"
    by (simp add: S3BackupDestinationProps_def DestinationLoggingProps_def CommonS3Props_def)
  moreover have "list_all readonly (all_members CommonDestinationProps)"
    by (simp add: CommonDestinationProps_def DestinationLoggingProps_def)
  moreover have "map (deref (construct_all vs module_heap)) static_refs
      = map (deref module_heap) static_refs"
    by (simp add: static_refs_eq deref_construct_all length_module_heap)
  ultimately show ?thesis
    by (simp add: take_construct_all)
qed

text \<open>
  C6. \<^verbatim>\<open>CommonS3Props\<close> extends nothing and has exactly six properties, every one
  optional: \<^verbatim>\<open>bufferingInterval\<close> (a \<^verbatim>\<open>cdk.Duration\<close>), \<^verbatim>\<open>bufferingSize\<close> (a
  \<^verbatim>\<open>cdk.Size\<close>), \<^verbatim>\<open>compression\<close> (a \<^verbatim>\<open>Compression\<close>), \<^verbatim>\<open>encryptionKey\<close> (a
  \<^verbatim>\<open>kms.IKey\<close>), \<^verbatim>\<open>errorOutputPrefix\<close> (a string) and \<^verbatim>\<open>prefix\<close> (a string).
\<close>

theorem CommonS3Props_six_optional:
  "map (\<lambda>p. (pname p, ptype p)) (all_members CommonS3Props) =
     [(''bufferingInterval'', TRef ''cdk.Duration''),
      (''bufferingSize'', TRef ''cdk.Size''),
      (''compression'', TRef ''Compression''),
      (''encryptionKey'', TRef ''kms.IKey''),
      (''errorOutputPrefix'', TString),
      (''prefix'', TString)] \<and>
   length (all_members CommonS3Props) = 6 \<and>
   list_all optional (all_members CommonS3Props) \<and>
   extends CommonS3Props = []"
  by (simp add: CommonS3Props_def)

text \<open>
  C7. The properties of \<^verbatim>\<open>S3BackupDestinationProps\<close> are those of
  \<^verbatim>\<open>DestinationLoggingProps\<close> (the optional boolean \<^verbatim>\<open>logging\<close> and the optional
  \<^verbatim>\<open>logGroup\<close>, a \<^verbatim>\<open>logs.ILogGroup\<close>), those of \<^verbatim>\<open>CommonS3Props\<close>, and exactly two more,
  both optional: \<^verbatim>\<open>backupBucket\<close> (an \<^verbatim>\<open>s3.IBucket\<close>) and \<^verbatim>\<open>backupMode\<close> (a
  \<^verbatim>\<open>BackupMode\<close>). No name is declared twice.
\<close>

theorem S3BackupDestinationProps_members:
  "all_members S3BackupDestinationProps =
     all_members DestinationLoggingProps @ all_members CommonS3Props @
     [\<lparr>pname = ''backupBucket'', readonly = True, optional = True, ptype = TRef ''s3.IBucket''\<rparr>,
      \<lparr>pname = ''backupMode'', readonly = True, optional = True, ptype = TRef ''BackupMode''\<rparr>] \<and>
   map (\<lambda>p. (pname p, optional p, ptype p)) (all_members DestinationLoggingProps) =
     [(''logging'', True, TBoolean), (''logGroup'', True, TRef ''logs.ILogGroup'')] \<and>
   distinct (map pname (all_members S3BackupDestinationProps)) \<and>
   length (all_members S3BackupDestinationProps) =
     length (all_members DestinationLoggingProps) + length (all_members CommonS3Props) + 2"
  by (simp add: S3BackupDestinationProps_def DestinationLoggingProps_def CommonS3Props_def)

text \<open>
  C8. The properties of \<^verbatim>\<open>CommonDestinationProps\<close> are those of
  \<^verbatim>\<open>DestinationLoggingProps\<close> and exactly three more, all optional: \<^verbatim>\<open>role\<close> (an
  \<^verbatim>\<open>iam.IRole\<close>), \<^verbatim>\<open>processors\<close> (an array of \<^verbatim>\<open>IDataProcessor\<close>) and
  \<^verbatim>\<open>backupConfiguration\<close> (an \<^verbatim>\<open>S3BackupDestinationProps\<close>). No name is declared twice.
\<close>

theorem CommonDestinationProps_members:
  "all_members CommonDestinationProps =
     all_members DestinationLoggingProps @
     [\<lparr>pname = ''role'', readonly = True, optional = True, ptype = TRef ''iam.IRole''\<rparr>,
      \<lparr>pname = ''processors'', readonly = True, optional = True,
        ptype = TArray (TRef ''IDataProcessor'')\<rparr>,
      \<lparr>pname = ''backupConfiguration'', readonly = True, optional = True,
        ptype = TRef (iname S3BackupDestinationProps)\<rparr>] \<and>
   map (\<lambda>p. (pname p, optional p, ptype p)) (all_members DestinationLoggingProps) =
     [(''logging'', True, TBoolean), (''logGroup'', True, TRef ''logs.ILogGroup'')] \<and>
   distinct (map pname (all_members CommonDestinationProps)) \<and>
   length (all_members CommonDestinationProps) =
     length (all_members DestinationLoggingProps) + 3"
  by (simp add: CommonDestinationProps_def DestinationLoggingProps_def S3BackupDestinationProps_def)

text \<open>
  C9. The five predefined instances have five different tags, so the tag tells the
  instances apart. The tag of \<^verbatim>\<open>SNAPPY\<close> is the mixed-case \<^verbatim>\<open>"Snappy"\<close>; the tags of the
  other four are all-uppercase.
\<close>

theorem Compression_tags_injective:
  "distinct (map (static_value module_heap) [GZIP, HADOOP_SNAPPY, SNAPPY, UNCOMPRESSED, ZIP]) \<and>
   None \<notin> set (map (static_value module_heap) [GZIP, HADOOP_SNAPPY, SNAPPY, UNCOMPRESSED, ZIP]) \<and>
   static_value module_heap SNAPPY = Some ''Snappy'' \<and>
   mixed_case ''Snappy'' \<and>
   map (map_option all_uppercase \<circ> static_value module_heap)
     [GZIP, HADOOP_SNAPPY, UNCOMPRESSED, ZIP] = [Some True, Some True, Some True, Some True]"
proof -
  have "mixed_case ''Snappy''"
    by (simp add: mixed_case_def has_uppercase_def has_lowercase_def)
  moreover have "all_uppercase ''GZIP''" "all_uppercase ''HADOOP_SNAPPY''"
    "all_uppercase ''UNCOMPRESSED''" "all_uppercase ''ZIP''"
    by (simp_all add: all_uppercase_def has_uppercase_def has_lowercase_def)
  ultimately show ?thesis
    using static_values_eq by simp
qed

text \<open>
  C10. The members of \<^verbatim>\<open>BackupMode\<close> carry the numbers of their declaration order:
  \<^verbatim>\<open>ALL\<close> is 0, \<^verbatim>\<open>FAILED\<close> is 1, \<^verbatim>\<open>DISABLED\<close> is 2. The member whose number is 0 is
  \<^verbatim>\<open>ALL\<close>, not \<^verbatim>\<open>DISABLED\<close>.
\<close>

theorem BackupMode_numbers:
  "BackupMode_number BackupMode_ALL = Some 0 \<and>
   BackupMode_number BackupMode_FAILED = Some 1 \<and>
   BackupMode_number BackupMode_DISABLED = Some 2 \<and>
   BackupMode_number BackupMode_DISABLED \<noteq> Some 0 \<and>
   (BackupMode_number m = Some 0) = (m = BackupMode_ALL)"
  by (cases m) (simp_all add: BackupMode_number_def BackupMode_enum_def)

end
